theory Spec2Isabelle
  imports Main "HOL-Library.AList"
begin

section \<open>Python strings\<close>

text \<open>
  A Python \<open>str\<close> is a sequence of Unicode code points. The embedding covers the code
  points U+0000 to U+00FF: a \<^typ>\<open>char\<close> stands for the code point of the same number, so
  \<open>length\<close> counts what Python's \<open>len\<close> counts. On this range \<open>str.lower\<close> works
  character by character and \<open>str.isspace\<close> holds of twelve code points.
\<close>

definition py_isspace :: "char \<Rightarrow> bool" where
  "py_isspace c =
     (let n = (of_char c :: nat)
      in (9 \<le> n \<and> n \<le> 13) \<or> (28 \<le> n \<and> n \<le> 32) \<or> n = 133 \<or> n = 160)"

definition py_lower_char :: "char \<Rightarrow> char" where
  "py_lower_char c =
     (let n = (of_char c :: nat)
      in if (65 \<le> n \<and> n \<le> 90) \<or> (192 \<le> n \<and> n \<le> 222 \<and> n \<noteq> 215)
         then char_of (n + 32) else c)"

definition py_lower :: "string \<Rightarrow> string" where
  "py_lower s = map py_lower_char s"

text \<open>\<open>s.replace(" ", "-")\<close>: every U+0020 becomes a hyphen.\<close>

definition replace_space :: "string \<Rightarrow> string" where
  "replace_space s = map (\<lambda>c. if c = CHR '' '' then CHR ''-'' else c) s"

text \<open>\<open>s.strip()\<close>, \<open>s.lstrip("#")\<close> and \<open>s.rstrip("\n")\<close>.\<close>

definition py_lstrip :: "string \<Rightarrow> string" where
  "py_lstrip s = dropWhile py_isspace s"

definition py_rstrip :: "string \<Rightarrow> string" where
  "py_rstrip s = rev (dropWhile py_isspace (rev s))"

definition py_strip :: "string \<Rightarrow> string" where
  "py_strip s = py_rstrip (py_lstrip s)"

definition lstrip_hash :: "string \<Rightarrow> string" where
  "lstrip_hash s = dropWhile (\<lambda>c. c = CHR ''#'') s"

definition rstrip_newline :: "string \<Rightarrow> string" where
  "rstrip_newline s = rev (dropWhile (\<lambda>c. c = CHR 0x0A) (rev s))"


section \<open>Filename derivation\<close>

text \<open>
  \<open>format_file_name\<close>: the title is lowered, turned into a list of characters, and
  every position holding a whitespace character is overwritten with a hyphen.
\<close>

definition format_file_name :: "string \<Rightarrow> string" where
  "format_file_name recipe_title =
     map (\<lambda>char. if py_isspace char then CHR ''-'' else char) (py_lower recipe_title)"

text \<open>
  The filename as the specification words it: lowercase the title, replace every
  whitespace character with a hyphen, append \<open>.md\<close>.
\<close>

definition spec_derive_filename :: "string \<Rightarrow> string" where
  "spec_derive_filename t =
     map (\<lambda>c. if py_isspace c then CHR ''-'' else c) (map py_lower_char t) @ ''.md''"

section \<open>Text files\<close>

text \<open>
  Files are opened in text mode. Reading translates the line ends \<open>\r\n\<close> and \<open>\r\<close>
  to \<open>\n\<close>; iterating over a file yields its lines, each with its \<open>\n\<close> but possibly
  the last; \<open>readline\<close> returns the first of them, or the empty string at end of file.
  The functions below take the text as it is stored.
\<close>

abbreviation LF :: char where "LF \<equiv> CHR 0x0A"
abbreviation CR :: char where "CR \<equiv> CHR 0x0D"

fun py_lines_acc :: "string \<Rightarrow> string \<Rightarrow> string list" where
  "py_lines_acc cur [] = (if cur = [] then [] else [cur])"
| "py_lines_acc cur (c # cs) =
     (if c = LF then (cur @ [LF]) # py_lines_acc [] cs
      else if c = CR then
        (case cs of
           [] \<Rightarrow> [cur @ [LF]]
         | d # ds \<Rightarrow> if d = LF then (cur @ [LF]) # py_lines_acc [] ds
                    else (cur @ [LF]) # py_lines_acc [] cs)
      else py_lines_acc (cur @ [c]) cs)"

definition py_lines :: "string \<Rightarrow> string list" where
  "py_lines content = py_lines_acc [] content"

definition py_readline :: "string \<Rightarrow> string" where
  "py_readline content = (case py_lines content of [] \<Rightarrow> [] | l # _ \<Rightarrow> l)"

text \<open>\<open>f.read()\<close>: the whole text, its line ends translated.\<close>

definition py_read :: "string \<Rightarrow> string" where
  "py_read content = concat (py_lines content)"

text \<open>\<open>os.path.join\<close> of two components, as \<open>posixpath\<close> defines it.\<close>

definition os_path_join :: "string \<Rightarrow> string \<Rightarrow> string" where
  "os_path_join a b =
     (if b \<noteq> [] \<and> hd b = CHR ''/'' then b
      else if a = [] \<or> last a = CHR ''/'' then a @ b
      else a @ ''/'' @ b)"

section \<open>Decimal numerals\<close>

definition digit_char :: "nat \<Rightarrow> char" where
  "digit_char d = char_of (48 + d)"

fun str_nat :: "nat \<Rightarrow> string" where
  "str_nat n = (if n < 10 then [digit_char n] else str_nat (n div 10) @ [digit_char (n mod 10)])"

declare str_nat.simps [simp del]

definition str_int :: "int \<Rightarrow> string" where
  "str_int i = (if i < 0 then CHR ''-'' # str_nat (nat (- i)) else str_nat (nat i))"

section \<open>Values, settings, recipes\<close>

text \<open>
  The values \<open>yaml.safe_load\<close> builds: null, booleans, integers, strings, binary data
  (\<open>bytes\<close>), sequences and mappings, and the others (floats, dates, timestamps, sets),
  of which the program can observe the type's name, with and without its module, and the
  truth value. A mapping is a Python \<open>dict\<close> in insertion order. The program only looks
  up string keys, and a string key equals no key of another type.
\<close>

datatype yaml =
    YNull
  | YBool bool
  | YInt int
  | YStr string
  | YBytes string
  | YSeq "yaml list"
  | YMap "(yaml \<times> yaml) list"
  | YOther string string bool

type_synonym dict = "(yaml \<times> yaml) list"

text \<open>Python's truth value of an object, as \<open>not x\<close> and \<open>x or y\<close> test it.\<close>

fun truthy :: "yaml \<Rightarrow> bool" where
  "truthy YNull = False"
| "truthy (YBool b) = b"
| "truthy (YInt i) = (i \<noteq> 0)"
| "truthy (YStr s) = (s \<noteq> [])"
| "truthy (YSeq xs) = (xs \<noteq> [])"
| "truthy (YMap kvs) = (kvs \<noteq> [])"
| "truthy (YBytes b) = (b \<noteq> [])"
| "truthy (YOther qualified name t) = t"

text \<open>
  The name of a value's type, as the interpreter's error texts spell it: in some with
  the module of the type, in others without.
\<close>

fun type_name :: "yaml \<Rightarrow> string" where
  "type_name YNull = ''NoneType''"
| "type_name (YBool b) = ''bool''"
| "type_name (YInt i) = ''int''"
| "type_name (YStr s) = ''str''"
| "type_name (YBytes b) = ''bytes''"
| "type_name (YSeq xs) = ''list''"
| "type_name (YMap kvs) = ''dict''"
| "type_name (YOther qualified name t) = name"

fun qualified_type_name :: "yaml \<Rightarrow> string" where
  "qualified_type_name (YOther qualified name t) = qualified"
| "qualified_type_name v = type_name v"

text \<open>
  \<open>d.get(k)\<close> returns \<open>None\<close> for a missing key, so a missing key and a key bound to
  null look the same; \<open>d[k]\<close> raises \<open>KeyError\<close> for a missing key.
\<close>

definition dict_get :: "dict \<Rightarrow> string \<Rightarrow> yaml" where
  "dict_get d k = (case map_of d (YStr k) of None \<Rightarrow> YNull | Some v \<Rightarrow> v)"

definition dict_item :: "dict \<Rightarrow> string \<Rightarrow> yaml option" where
  "dict_item d k = map_of d (YStr k)"

definition dict_set :: "dict \<Rightarrow> string \<Rightarrow> yaml \<Rightarrow> dict" where
  "dict_set d k v = AList.update (YStr k) v d"

definition setdefault :: "dict \<Rightarrow> string \<Rightarrow> yaml \<Rightarrow> dict" where
  "setdefault d k v = (case map_of d (YStr k) of None \<Rightarrow> d @ [(YStr k, v)] | Some _ \<Rightarrow> d)"

text \<open>
  The scraper is an external library. What it returns for a URL is a recipe with the
  fields of the specification's data model: a title, optional yields and total time, and
  the ordered ingredients and instructions. \<open>scrape_me\<close> is a parameter of the model:
  a function from the URL to the recipe, or to the text of the exception it raises.
\<close>

record recipe =
  title :: string
  yields :: "string option"
  total_time :: "int option"
  ingredients :: "string list"
  instructions_list :: "string list"

type_synonym scraper = "string \<Rightarrow> string + recipe"

text \<open>
  The exceptions the program can meet, each with what its handlers print of it: the text
  \<open>str(e)\<close>, and for an operating system error other than a missing file also
  \<open>e.errno\<close> and \<open>e.strerror\<close> before it. The texts of the interpreter's own
  exceptions are those of CPython 3.11. \<open>OtherException\<close> stands for an exception of
  any other class, none of which the program tells apart from \<open>Exception\<close>.
\<close>

datatype exn =
    FileNotFoundError string
  | OSError int string string
  | TypeError string
  | KeyError string
  | AttributeError string
  | UnboundLocalError
  | YAMLError string
  | MarkupError string
  | OtherException string

abbreviation APOS :: char where "APOS \<equiv> CHR 0x27"

fun str_exn :: "exn \<Rightarrow> string" where
  "str_exn (FileNotFoundError s) = s"
| "str_exn (OSError errno strerror s) = s"
| "str_exn (TypeError s) = s"
| "str_exn (KeyError k) = [APOS] @ k @ [APOS]"
| "str_exn (AttributeError s) = s"
| "str_exn UnboundLocalError =
     ''cannot access local variable 'scraper' where it is not associated with a value''"
| "str_exn (YAMLError s) = s"
| "str_exn (MarkupError s) = s"
| "str_exn (OtherException s) = s"

text \<open>The texts of the \<open>TypeError\<close>s and the \<open>AttributeError\<close> that values of the wrong type cause.\<close>

definition add_str_text :: "yaml \<Rightarrow> string" where
  "add_str_text v =
     (case v of
        YSeq _ \<Rightarrow> ''can only concatenate list (not \"str\") to list''
      | YBytes _ \<Rightarrow> ''can't concat str to bytes''
      | _ \<Rightarrow> ''unsupported operand type(s) for +: '' @ [APOS] @ qualified_type_name v @ [APOS]
             @ '' and 'str'' @ [APOS])"

definition fspath_text :: "yaml \<Rightarrow> string" where
  "fspath_text v = ''expected str, bytes or os.PathLike object, not '' @ type_name v"


definition no_get_text :: "yaml \<Rightarrow> string" where
  "no_get_text v =
     [APOS] @ qualified_type_name v @ [APOS] @ '' object has no attribute 'get'' @ [APOS]"

definition not_subscriptable_text :: string where
  "not_subscriptable_text = [APOS] @ ''NoneType' object is not subscriptable''"

text \<open>
  One constructor for each \<open>console.print\<close> of the program, and the text each hands to
  the console. Of a rendered Markdown document only the line feeds around it are such a
  text.
\<close>

datatype msg =
    CouldNotScrape string
  | Markdown string
  | RecipeSaved
  | ErrorSavingRecipe exn
  | MarkdownNotFound
  | IOErrorMsg int string
  | ErrorOccurred exn
  | DirectoryNotFound
  | ChdirError exn
  | ErrorSavingFromURL string exn
  | URLFileNotFound
  | DirectoryNotSpecified
  | NoMarkdownFiles
  | ErrorReadingFile exn

fun msg_text :: "msg \<Rightarrow> string" where
  "msg_text (CouldNotScrape e) = [LF] @ ''Could not scrape recipe, error: '' @ e"
| "msg_text (Markdown md_content) = [LF]"
| "msg_text RecipeSaved = [LF] @ ''Recipe saved successfully.'' @ [LF]"
| "msg_text (ErrorSavingRecipe e) = [LF] @ ''Error saving the recipe: '' @ str_exn e @ [LF]"
| "msg_text MarkdownNotFound = [LF] @ ''Markdown file not found.'' @ [LF]"
| "msg_text (IOErrorMsg errno strerror) =
     [LF] @ ''I/O error('' @ str_int errno @ ''): '' @ strerror @ [LF]"
| "msg_text (ErrorOccurred e) = [LF] @ ''An error occurred: '' @ str_exn e @ [LF]"
| "msg_text DirectoryNotFound =
     [LF] @ ''Directory not found. Please check the settings.'' @ [LF]"
| "msg_text (ChdirError e) =
     [LF] @ ''An error occurred while changing directory: '' @ str_exn e @ [LF]"
| "msg_text (ErrorSavingFromURL single_url e) =
     [LF] @ ''Error saving recipe from URL: '' @ single_url @ ''. Error: '' @ str_exn e @ [LF]"
| "msg_text URLFileNotFound =
     [LF] @ ''URL file not found. Please provide a valid file path.'' @ [LF]"
| "msg_text DirectoryNotSpecified = [LF] @ ''Directory not specified in the settings.'' @ [LF]"
| "msg_text NoMarkdownFiles =
     [LF] @ ''No markdown files found in the specified directory.'' @ [LF]"
| "msg_text (ErrorReadingFile e) = [LF] @ ''Error reading the file: '' @ str_exn e @ [LF]"

text \<open>
  The state the program changes: the text files by path, the messages the console has
  printed, the URLs handed to the scraper so far and the choice lists of the prompts
  shown so far.
\<close>

record world =
  files :: "string \<rightharpoonup> string"
  console :: "msg list"
  scraped :: "string list"
  prompted :: "string list list"

text \<open>
  What lies outside the program. The operating system decides whether a path can be
  opened for writing (\<open>None\<close>: yes), which exception opening a path for reading raises
  when no text file is there (a missing file, a directory), what a directory lists,
  whether a directory can be entered or created, and where the user's home and
  configuration directories are. The console library decides which texts its markup
  parser refuses, and with which error text.
\<close>

record os =
  open_w :: "string \<Rightarrow> exn option"
  read_error :: "string \<Rightarrow> exn"
  listdir :: "yaml \<Rightarrow> exn + string list"
  chdir :: "yaml \<Rightarrow> exn option"
  makedirs :: "string \<Rightarrow> exn option"
  home :: string
  user_config_dir :: string
  markup_error :: "string \<Rightarrow> string option"

text \<open>
  \<open>console.print\<close> parses its text as console markup and raises \<open>MarkupError\<close>, printing
  nothing, when the parser refuses it. A text without an opening bracket holds no tag and
  is printed as it is.
\<close>

definition markup_raises :: "os \<Rightarrow> string \<Rightarrow> string option" where
  "markup_raises env markup = (if CHR ''['' \<in> set markup then markup_error env markup else None)"

definition console_print :: "os \<Rightarrow> msg \<Rightarrow> world \<Rightarrow> world \<times> exn option" where
  "console_print env m w =
     (case markup_raises env (msg_text m) of
        None \<Rightarrow> (w\<lparr>console := console w @ [m]\<rparr>, None)
      | Some t \<Rightarrow> (w, Some (MarkupError t)))"

text \<open>
  An \<open>except\<close> clause that prints and returns, and one that prints and raises the
  exception again: an exception raised by the printing takes the place of either.
\<close>

definition handled :: "world \<times> exn option \<Rightarrow> world \<times> (exn + unit)" where
  "handled printed = (case printed of (w, None) \<Rightarrow> (w, Inr ()) | (w, Some m) \<Rightarrow> (w, Inl m))"

definition reraise :: "world \<times> exn option \<Rightarrow> exn \<Rightarrow> world \<times> (exn + unit)" where
  "reraise printed e = (case printed of (w, None) \<Rightarrow> (w, Inl e) | (w, Some m) \<Rightarrow> (w, Inl m))"

text \<open>\<open>open(path, "r")\<close>: the stored text of the file, to be read in text mode.\<close>

definition open_r :: "os \<Rightarrow> world \<Rightarrow> string \<Rightarrow> exn + string" where
  "open_r env w path = (case files w path of None \<Rightarrow> Inl (read_error env path) | Some c \<Rightarrow> Inr c)"

section \<open>Saving a recipe\<close>

text \<open>\<open>str\<close> of an optional field, as an f-string formats it.\<close>

definition str_opt :: "string option \<Rightarrow> string" where
  "str_opt v = (case v of None \<Rightarrow> ''None'' | Some s \<Rightarrow> s)"

definition enumerate_from :: "nat \<Rightarrow> 'a list \<Rightarrow> (nat \<times> 'a) list" where
  "enumerate_from n xs = zip [n ..< n + length xs] xs"

text \<open>
  The body of the \<open>with open(recipe_file, "w+")\<close> block: the text printed to the file and,
  if a lookup in the settings raised, the exception that cut it short. Each \<open>print\<close>
  joins its arguments with a space and ends the line.
\<close>

definition write_recipe :: "recipe \<Rightarrow> string \<Rightarrow> dict \<Rightarrow> string \<times> exn option" where
  "write_recipe scraper title' yaml_settings =
     (let t0 = ''# '' @ title' @ [LF]
      in case dict_item yaml_settings ''yield'' of
           None \<Rightarrow> (t0, Some (KeyError ''yield''))
         | Some y \<Rightarrow>
             (let t1 = t0 @ (if truthy y
                             then ''**Serves:** '' @ str_opt (yields scraper) @ [LF] else [])
              in case dict_item yaml_settings ''time'' of
                   None \<Rightarrow> (t1, Some (KeyError ''time''))
                 | Some tm \<Rightarrow>
                     (let t2 = t1 @ (if truthy tm
                                     then ''**Total Time:** ''
                                          @ str_opt (map_option str_int (total_time scraper))
                                          @ '' mins'' @ [LF]
                                     else []);
                          t3 = t2 @ [LF] @ ''## Ingredients'' @ [LF];
                          t4 = t3 @ concat (map (\<lambda>ingredient. ''- '' @ ingredient @ [LF])
                                             (ingredients scraper));
                          t5 = t4 @ [LF] @ ''## Instructions'' @ [LF];
                          t6 = t5 @ concat (map (\<lambda>(index, instruction).
                                                   str_nat (index + 1) @ ''. '' @ instruction @ [LF])
                                             (enumerate_from 0 (instructions_list scraper)))
                      in (t6, None))))"

text \<open>
  \<open>save_recipe_to_markdown\<close>. When \<open>scrape_me\<close> raises, the handler prints a message
  (and raises if the console refuses it) and the function goes on with \<open>scraper\<close>
  unbound: \<open>settings.get\<close> cannot raise, and \<open>scraper.title()\<close> raises
  \<open>UnboundLocalError\<close>. Otherwise \<open>directory + "/"\<close> raises \<open>TypeError\<close> unless the
  directory is a string, \<open>open\<close> may raise what the operating system says, and an
  exception inside the block leaves the file with what was printed before it.
\<close>

definition save_recipe_to_markdown ::
    "scraper \<Rightarrow> os \<Rightarrow> string \<Rightarrow> dict \<Rightarrow> world \<Rightarrow> world \<times> (exn + string)" where
  "save_recipe_to_markdown scrape_me env recipe_url yaml_settings w =
     (let w1 = w\<lparr>scraped := scraped w @ [recipe_url]\<rparr>;
          (scraper, w2, raised) =
            (case scrape_me recipe_url of
               Inr s \<Rightarrow> (Some s, w1, None)
             | Inl e \<Rightarrow>
                 (case console_print env (CouldNotScrape e) w1 of
                    (w', r) \<Rightarrow> (None, w', r)));
          directory = dict_get yaml_settings ''directory''
      in case raised of
           Some m \<Rightarrow> (w2, Inl m)
         | None \<Rightarrow>
             (case scraper of
                None \<Rightarrow> (w2, Inl UnboundLocalError)
              | Some sc \<Rightarrow>
                  (let title' = replace_space (title sc)
                   in case directory of
                        YStr d \<Rightarrow>
                          (let recipe_file = d @ ''/'' @ format_file_name title' @ ''.md''
                           in case open_w env recipe_file of
                                Some e \<Rightarrow> (w2, Inl e)
                              | None \<Rightarrow>
                                  (let (text_file, raised') =
                                         write_recipe sc title' yaml_settings;
                                       w3 = w2\<lparr>files := (files w2)(recipe_file \<mapsto> text_file)\<rparr>
                                   in case raised' of
                                        Some e \<Rightarrow> (w3, Inl e)
                                      | None \<Rightarrow> (w3, Inr recipe_file)))
                      | _ \<Rightarrow> (w2, Inl (TypeError (add_str_text directory))))))"

section \<open>Viewing a recipe\<close>

text \<open>
  \<open>print_markdown\<close> clears the console and renders the text as a Markdown document,
  which the markup parser does not read.
\<close>

definition print_markdown :: "string \<Rightarrow> world \<Rightarrow> world" where
  "print_markdown md_content w = w\<lparr>console := console w @ [Markdown md_content]\<rparr>"

text \<open>
  A prompt shows its choices and returns the user's selection. The selections still to
  come are a list; when it is empty the prompt returns \<open>None\<close> (the user interrupted it),
  and subscripting the answer raises \<open>TypeError\<close>.
\<close>

definition show_prompt :: "string list \<Rightarrow> world \<Rightarrow> world" where
  "show_prompt choices w = w\<lparr>prompted := prompted w @ [choices]\<rparr>"

text \<open>The three \<open>except\<close> clauses that close \<open>view_recipe\<close>, in their order.\<close>

definition view_except :: "os \<Rightarrow> exn \<Rightarrow> world \<Rightarrow> world \<times> (exn + unit)" where
  "view_except env e w =
     (case e of
        FileNotFoundError _ \<Rightarrow> handled (console_print env MarkdownNotFound w)
      | OSError errno strerror _ \<Rightarrow> handled (console_print env (IOErrorMsg errno strerror) w)
      | _ \<Rightarrow> handled (console_print env (ErrorOccurred e) w))"

text \<open>The body of the \<open>try\<close> of \<open>view_recipe\<close>: the state it reaches and what it raised.\<close>

definition view_try ::
    "scraper \<Rightarrow> os \<Rightarrow> string \<Rightarrow> dict \<Rightarrow> bool \<Rightarrow> string list \<Rightarrow> world \<Rightarrow> world \<times> exn option" where
  "view_try scrape_me env recipe_url yaml_settings prompt_save answers w =
     (case save_recipe_to_markdown scrape_me env recipe_url yaml_settings w of
        (w1, Inl e) \<Rightarrow> (w1, Some e)
      | (w1, Inr file_path) \<Rightarrow>
          if file_path = [] then (w1, None)
          else
            (case open_r env w1 file_path of
               Inl e \<Rightarrow> (w1, Some e)
             | Inr f \<Rightarrow>
                 (let md_content = py_read f;
                      w2 = print_markdown md_content w1
                  in if prompt_save then
                       (let w3 = show_prompt [''Save this recipe'', ''Quit''] w2
                        in case answers of
                             [] \<Rightarrow> (w3, Some (TypeError not_subscriptable_text))
                           | after_view # _ \<Rightarrow>
                               if after_view = ''Save this recipe'' then
                                 (case save_recipe_to_markdown scrape_me env recipe_url
                                         yaml_settings w3 of
                                    (w4, Inr _) \<Rightarrow> console_print env RecipeSaved w4
                                  | (w4, Inl e) \<Rightarrow> console_print env (ErrorSavingRecipe e) w4)
                               else (w3, None))
                     else (w2, None))))"

definition view_recipe ::
    "scraper \<Rightarrow> os \<Rightarrow> string \<Rightarrow> dict \<Rightarrow> bool \<Rightarrow> string list \<Rightarrow> world
       \<Rightarrow> world \<times> (exn + unit)" where
  "view_recipe scrape_me env recipe_url yaml_settings prompt_save answers w =
     (case view_try scrape_me env recipe_url yaml_settings prompt_save answers w of
        (w', None) \<Rightarrow> (w', Inr ())
      | (w', Some e) \<Rightarrow> view_except env e w')"

section \<open>Saving a list of recipes\<close>

text \<open>
  The loop over the lines of the URL file: each line is stripped and handed to
  \<open>save_recipe_to_markdown\<close>; whatever that raises is printed and the loop goes on,
  unless the printing itself raises, which ends the loop.
\<close>

fun save_lines ::
    "scraper \<Rightarrow> os \<Rightarrow> dict \<Rightarrow> string list \<Rightarrow> world \<Rightarrow> world \<times> exn option" where
  "save_lines scrape_me env settings [] w = (w, None)"
| "save_lines scrape_me env settings (line # rest) w =
     (let single_url = rstrip_newline (py_strip line)
      in case save_recipe_to_markdown scrape_me env single_url settings w of
           (w1, Inr _) \<Rightarrow> save_lines scrape_me env settings rest w1
         | (w1, Inl e) \<Rightarrow>
             (case console_print env (ErrorSavingFromURL single_url e) w1 of
                (w2, None) \<Rightarrow> save_lines scrape_me env settings rest w2
              | (w2, Some m) \<Rightarrow> (w2, Some m)))"

text \<open>The \<open>except\<close> clauses around \<open>os.chdir\<close> and those around the reading of the file.\<close>

definition chdir_except :: "os \<Rightarrow> exn \<Rightarrow> world \<Rightarrow> world \<times> (exn + unit)" where
  "chdir_except env e w =
     (case e of
        FileNotFoundError _ \<Rightarrow> reraise (console_print env DirectoryNotFound w) e
      | _ \<Rightarrow> reraise (console_print env (ChdirError e) w) e)"

definition list_except :: "os \<Rightarrow> exn \<Rightarrow> world \<Rightarrow> world \<times> (exn + unit)" where
  "list_except env e w =
     (case e of
        FileNotFoundError _ \<Rightarrow> reraise (console_print env URLFileNotFound w) e
      | OSError errno strerror _ \<Rightarrow> reraise (console_print env (IOErrorMsg errno strerror) w) e
      | _ \<Rightarrow> reraise (console_print env (ErrorOccurred e) w) e)"

text \<open>
  \<open>save_list_of_recipes\<close>: \<open>settings["directory"]\<close> raises \<open>KeyError\<close> for a missing key,
  \<open>os.chdir\<close> and \<open>open\<close> raise what the operating system says; each is printed and
  raised again. The lines are those of the file as it is when it is opened. Of the
  change of working directory only its success or failure is modelled: files are looked
  up under the paths the program passes.
\<close>

definition save_list_of_recipes ::
    "scraper \<Rightarrow> os \<Rightarrow> string \<Rightarrow> dict \<Rightarrow> world \<Rightarrow> world \<times> (exn + unit)" where
  "save_list_of_recipes scrape_me env url settings w =
     (case dict_item settings ''directory'' of
        None \<Rightarrow> chdir_except env (KeyError ''directory'') w
      | Some d \<Rightarrow>
          (case chdir env d of
             Some e \<Rightarrow> chdir_except env e w
           | None \<Rightarrow>
               (case open_r env w url of
                  Inl e \<Rightarrow> list_except env e w
                | Inr f \<Rightarrow>
                    (case save_lines scrape_me env settings (py_lines f) w of
                       (w1, None) \<Rightarrow> (w1, Inr ())
                     | (w1, Some e) \<Rightarrow> list_except env e w1))))"

section \<open>Browsing the saved recipes\<close>

text \<open>
  The loop over \<open>os.listdir(directory)\<close>, whose names \<open>os.fsdecode\<close> turns into
  strings: \<open>os.path.join\<close> raises \<open>TypeError\<close> for a directory that is not a string;
  every name ending in \<open>.md\<close> is opened, whatever it
  names, its first line read, and the title (leading \<open>#\<close>s stripped, then whitespace)
  bound to the path in \<open>title_to_file\<close>, a later file taking the place of an earlier one
  with the same title.
\<close>

definition extract_title :: "string \<Rightarrow> string" where
  "extract_title content = py_strip (lstrip_hash (py_readline content))"




section \<open>Loading the settings\<close>

text \<open>
  The YAML library is external: \<open>yaml_safe_load\<close> (the value a text parses to, or the
  exception) and \<open>yaml_dump\<close> are parameters of the model.
\<close>

definition default_config :: dict where
  "default_config = [(YStr ''directory'', YNull), (YStr ''time'', YBool True),
                     (YStr ''yield'', YBool True)]"

definition default_directory :: "os \<Rightarrow> string" where
  "default_directory env = os_path_join (os_path_join (home env) ''Documents'') ''pure_recipes''"

text \<open>
  \<open>load_yaml\<close>. \<open>safe_load(file) or {}\<close> keeps any truthy value, and \<open>settings.get\<close>
  raises \<open>AttributeError\<close> on a value that is not a mapping; \<open>os.makedirs\<close> takes a
  string or a byte string, which names the path it decodes to, and raises \<open>TypeError\<close>
  on any other value.
\<close>

definition load_yaml ::
    "(string \<Rightarrow> exn + yaml) \<Rightarrow> (yaml \<Rightarrow> string) \<Rightarrow> os \<Rightarrow> world \<Rightarrow> world \<times> (exn + dict)" where
  "load_yaml yaml_safe_load yaml_dump env w =
     (let config_dir = os_path_join (user_config_dir env) ''pure_recipe'';
          config_path = os_path_join config_dir ''config.yaml''
      in case makedirs env config_dir of
           Some e \<Rightarrow> (w, Inl e)
         | None \<Rightarrow>
             (case (if files w config_path = None
                    then (case open_w env config_path of
                            Some e \<Rightarrow> Inl e
                          | None \<Rightarrow>
                              Inr (w\<lparr>files := (files w)(config_path \<mapsto>
                                                   yaml_dump (YMap default_config))\<rparr>))
                    else Inr w) of
                Inl e \<Rightarrow> (w, Inl e)
              | Inr w1 \<Rightarrow>
                  (case open_r env w1 config_path of
                     Inl e \<Rightarrow> (w1, Inl e)
                   | Inr f \<Rightarrow>
                       (case yaml_safe_load (py_read f) of
                          Inl e \<Rightarrow> (w1, Inl e)
                        | Inr loaded \<Rightarrow>
                            (case (if truthy loaded then loaded else YMap []) of
                               YMap settings \<Rightarrow>
                                 (let recipe_directory = dict_get settings ''directory'';
                                      (recipe_directory', settings') =
                                        (if \<not> truthy recipe_directory
                                         then (YStr (default_directory env),
                                               dict_set settings ''directory''
                                                 (YStr (default_directory env)))
                                         else (recipe_directory, settings))
                                  in case recipe_directory' of
                                       YStr p \<Rightarrow>
                                         (case makedirs env p of
                                            Some e \<Rightarrow> (w1, Inl e)
                                          | None \<Rightarrow>
                                              (w1, Inr (setdefault
                                                          (setdefault settings' ''time'' (YBool True))
                                                          ''yield'' (YBool True))))
                                     | YBytes p \<Rightarrow>
                                         (case makedirs env p of
                                            Some e \<Rightarrow> (w1, Inl e)
                                          | None \<Rightarrow>
                                              (w1, Inr (setdefault
                                                          (setdefault settings' ''time'' (YBool True))
                                                          ''yield'' (YBool True))))
                                     | v \<Rightarrow> (w1, Inl (TypeError (fspath_text v))))
                             | v \<Rightarrow> (w1, Inl (AttributeError (no_get_text v))))))))"

section \<open>Notions of the properties and example inputs\<close>

text \<open>The first line of a document: what precedes its first line feed.\<close>

definition first_line :: "string \<Rightarrow> string" where
  "first_line doc = takeWhile (\<lambda>c. c \<noteq> LF) doc"


text \<open>
  The path of the configuration file, and the text \<open>load_yaml\<close> hands to the YAML
  library: that of the file, or the dumped defaults when there is no file yet.
\<close>

definition config_file :: "os \<Rightarrow> string" where
  "config_file env =
     os_path_join (os_path_join (user_config_dir env) ''pure_recipe'') ''config.yaml''"

definition config_text :: "(yaml \<Rightarrow> string) \<Rightarrow> os \<Rightarrow> world \<Rightarrow> string" where
  "config_text yaml_dump env w =
     (case files w (config_file env) of
        None \<Rightarrow> py_read (yaml_dump (YMap default_config))
      | Some f \<Rightarrow> py_read f)"

definition empty_world :: world where
  "empty_world = \<lparr>files = Map.empty, console = [], scraped = [], prompted = []\<rparr>"



definition soup :: recipe where
  "soup = \<lparr>title = ''Soup'', yields = None, total_time = Some 20,
           ingredients = [''water''], instructions_list = [''boil'']\<rparr>"

definition lemon_cake :: recipe where
  "lemon_cake = \<lparr>title = ''Lemon Cake'', yields = Some ''8 servings'', total_time = Some 45,
                 ingredients = [''2 lemons'', ''200 g flour''],
                 instructions_list = [''Mix.'', ''Bake.'']\<rparr>"

text \<open>A scraper that knows two URLs and raises on every other one.\<close>

definition test_scraper :: scraper where
  "test_scraper url =
     (if url = ''soup'' then Inr soup
      else if url = ''cake'' then Inr lemon_cake
      else Inl ''no recipe found'')"

text \<open>A recipe whose title holds a slash, and a scraper that returns it.\<close>

definition mac_cheese :: recipe where
  "mac_cheese = \<lparr>title = ''Mac/Cheese'', yields = Some ''2 servings'', total_time = Some 30,
                 ingredients = [''macaroni'', ''cheese''], instructions_list = [''Cook.'']\<rparr>"

definition mac_scraper :: scraper where
  "mac_scraper url = Inr mac_cheese"

definition test_settings :: dict where
  "test_settings = [(YStr ''directory'', YStr ''/recipes''), (YStr ''time'', YBool True),
                    (YStr ''yield'', YBool False)]"

text \<open>
  The console library on the texts that occur here. They hold no tag but, in places, the
  closing tag \<open>[/x]\<close>, which closes nothing: the parser refuses the text and names the
  position of the tag.
\<close>

fun find_tag :: "string \<Rightarrow> string \<Rightarrow> nat option" where
  "find_tag tag [] = None"
| "find_tag tag (c # cs) =
     (if take (length tag) (c # cs) = tag then Some 0 else map_option Suc (find_tag tag cs))"

definition test_markup :: "string \<Rightarrow> string option" where
  "test_markup markup =
     (case find_tag ''[/x]'' markup of
        None \<Rightarrow> None
      | Some n \<Rightarrow> Some (''closing tag '[/x]' at position '' @ str_nat n
                        @ '' doesn't match any open tag''))"

definition no_such_file :: "string \<Rightarrow> exn" where
  "no_such_file path =
     FileNotFoundError (''[Errno 2] No such file or directory: '' @ [APOS] @ path @ [APOS])"

text \<open>
  An operating system that lets every call succeed; its directories list nothing, and a
  path without a file is a missing file.
\<close>

definition test_os :: os where
  "test_os = \<lparr>open_w = (\<lambda>_. None), read_error = no_such_file, listdir = (\<lambda>_. Inr []),
               chdir = (\<lambda>_. None), makedirs = (\<lambda>_. None), home = ''/home/u'',
               user_config_dir = ''/home/u/.config'', markup_error = test_markup\<rparr>"

text \<open>
  A storage directory \<open>/recipes\<close> without subdirectories: a file can be opened for
  writing when it lies in that directory itself.
\<close>

definition flat_os :: os where
  "flat_os = test_os\<lparr>open_w := (\<lambda>path. if take 9 path = ''/recipes/''
                                            \<and> CHR ''/'' \<notin> set (drop 9 path)
                                         then None else Some (no_such_file path))\<rparr>"

text \<open>A URL file of three lines, the second of which the scraper rejects.\<close>

definition batch_world :: world where
  "batch_world =
     empty_world\<lparr>files := [''urls.txt'' \<mapsto> ''soup'' @ [LF] @ ''broken'' @ [LF] @ ''cake'' @ [LF]]\<rparr>"



text \<open>
  A configuration file holding the YAML sequence \<open>- a\<close>, and what \<open>safe_load\<close> and
  \<open>dump\<close> do on the texts that occur here.
\<close>

definition test_dump :: "yaml \<Rightarrow> string" where
  "test_dump v = ''directory: null'' @ [LF] @ ''time: true'' @ [LF] @ ''yield: true'' @ [LF]"

definition test_safe_load :: "string \<Rightarrow> exn + yaml" where
  "test_safe_load text_file =
     (if text_file = ''- a'' @ [LF] then Inr (YSeq [YStr ''a''])
      else if text_file = ''directory: !!binary L3I='' @ [LF]
      then Inr (YMap [(YStr ''directory'', YBytes ''/r'')])
      else if text_file = test_dump (YMap default_config) then Inr (YMap default_config)
      else if text_file = [] then Inr YNull
      else Inl (YAMLError ''could not parse''))"

definition sequence_config_world :: world where
  "sequence_config_world =
     empty_world\<lparr>files := [''/home/u/.config/pure_recipe/config.yaml'' \<mapsto> ''- a'' @ [LF]]\<rparr>"



text \<open>A configuration file that gives the directory \<open>/r\<close> as binary data.\<close>

definition binary_config_world :: world where
  "binary_config_world =
     empty_world\<lparr>files := [''/home/u/.config/pure_recipe/config.yaml''
                              \<mapsto> ''directory: !!binary L3I='' @ [LF]]\<rparr>"

text \<open>An empty configuration file.\<close>

definition empty_config_world :: world where
  "empty_config_world =
     empty_world\<lparr>files := [''/home/u/.config/pure_recipe/config.yaml'' \<mapsto> []]\<rparr>"


section \<open>Strings and filenames\<close>

lemma isspace_lower: "py_isspace (py_lower_char c) = py_isspace c"
  unfolding py_isspace_def py_lower_char_def Let_def by auto

lemma lower_space_hyphen:
  "py_lower_char (CHR '' '') = CHR '' ''" "py_lower_char (CHR ''-'') = CHR ''-''"
  "py_isspace (CHR '' '')" "\<not> py_isspace (CHR ''-'')"
  by (simp_all add: py_lower_char_def py_isspace_def)

lemma format_replace: "format_file_name (replace_space t) = format_file_name t"
  by (induction t)
     (simp_all add: format_file_name_def replace_space_def py_lower_def
                    lower_space_hyphen isspace_lower)

text \<open>
  Claim C4. The filename under which a recipe is saved is a function of the title alone:
  it is the title lowered, with every whitespace character (tab, line feed, no-break
  space and the others, not only the space) replaced by a hyphen, every other character
  kept, and \<open>.md\<close> appended. The title "Lemon Cake" gives \<open>lemon-cake.md\<close>.
\<close>

theorem filename_derivation:
  "format_file_name (replace_space t) @ ''.md'' = spec_derive_filename t
   \<and> format_file_name (replace_space ''Lemon Cake'') @ ''.md'' = ''lemon-cake.md''"
proof
  show "format_file_name (replace_space t) @ ''.md'' = spec_derive_filename t"
    by (simp add: format_replace)
       (simp add: format_file_name_def spec_derive_filename_def py_lower_def)
  show "format_file_name (replace_space ''Lemon Cake'') @ ''.md'' = ''lemon-cake.md''"
    by code_simp
qed

section \<open>What a save does\<close>

lemma write_recipe_prefix: "\<exists>rest. fst (write_recipe r t S) = ''# '' @ t @ LF # rest"
  by (simp add: write_recipe_def Let_def split: option.splits)

lemma save_returns:
  assumes "scrape_me url = Inr r"
    and "save_recipe_to_markdown scrape_me env url S w = (w', Inr p)"
  shows "\<exists>d. dict_get S ''directory'' = YStr d
           \<and> p = d @ ''/'' @ format_file_name (replace_space (title r)) @ ''.md''
           \<and> files w' p = Some (fst (write_recipe r (replace_space (title r)) S))"
  using assms
  by (auto simp: save_recipe_to_markdown_def Let_def console_print_def
           split: yaml.splits option.splits prod.splits)

lemma save_ok:
  assumes "scrape_me url = Inr r"
    and "dict_get S ''directory'' = YStr d"
    and "p = d @ ''/'' @ format_file_name (replace_space (title r)) @ ''.md''"
    and "open_w env p = None"
    and "dict_item S ''yield'' = Some y"
    and "dict_item S ''time'' = Some tm"
  shows "save_recipe_to_markdown scrape_me env url S w =
           (w\<lparr>scraped := scraped w @ [url],
              files := (files w)(p \<mapsto> fst (write_recipe r (replace_space (title r)) S))\<rparr>,
            Inr p)"
  using assms
  by (simp add: save_recipe_to_markdown_def Let_def write_recipe_def split: prod.splits)


lemma save_scrape_fails:
  assumes "scrape_me url = Inl e"
  shows "save_recipe_to_markdown scrape_me env url S w =
           (case markup_raises env (msg_text (CouldNotScrape e)) of
              None \<Rightarrow> (w\<lparr>scraped := scraped w @ [url],
                         console := console w @ [CouldNotScrape e]\<rparr>, Inl UnboundLocalError)
            | Some t \<Rightarrow> (w\<lparr>scraped := scraped w @ [url]\<rparr>, Inl (MarkupError t)))"
  using assms
  by (simp add: save_recipe_to_markdown_def Let_def console_print_def split: option.splits)

lemma takeWhile_id: "\<forall>x\<in>set xs. P x \<Longrightarrow> takeWhile P xs = xs"
  by (induction xs) auto

lemma replace_space_no_space: "CHR '' '' \<notin> set t \<Longrightarrow> replace_space t = t"
  by (induction t) (auto simp: replace_space_def)

lemma first_line_heading:
  "first_line (''# '' @ t @ LF # rest) = ''# '' @ takeWhile (\<lambda>c. c \<noteq> LF) t"
proof -
  have "takeWhile (\<lambda>c. c \<noteq> LF) (t @ LF # rest) = takeWhile (\<lambda>c. c \<noteq> LF) t"
    by (induction t) simp_all
  then show ?thesis by (simp add: first_line_def)
qed

subsection \<open>The heading of a saved document\<close>

text \<open>
  Claim C1, as the program has it. When the scraper returns the recipe \<open>r\<close> for the URL
  and the save returns the path \<open>p\<close>, the file at \<open>p\<close> holds a document whose first line
  is \<open># \<close> followed by the title of \<open>r\<close> with every space replaced by a hyphen (up to
  the title's first line feed, if it has one). The first line is exactly \<open># \<close> followed
  by the title when the title holds neither a space nor a line feed.
\<close>

theorem heading_is_hyphenated_title:
  assumes "scrape_me url = Inr r"
    and "save_recipe_to_markdown scrape_me env url S w = (w', Inr p)"
  shows "\<exists>doc. files w' p = Some doc
           \<and> first_line doc = ''# '' @ takeWhile (\<lambda>c. c \<noteq> LF) (replace_space (title r))
           \<and> (CHR '' '' \<notin> set (title r) \<and> LF \<notin> set (title r)
                \<longrightarrow> first_line doc = ''# '' @ title r)"
proof -
  from save_returns [OF assms] have
    f: "files w' p = Some (fst (write_recipe r (replace_space (title r)) S))" by blast
  obtain rest where
    d: "fst (write_recipe r (replace_space (title r)) S)
          = ''# '' @ replace_space (title r) @ LF # rest"
    using write_recipe_prefix by blast
  have 1: "first_line (fst (write_recipe r (replace_space (title r)) S))
             = ''# '' @ takeWhile (\<lambda>c. c \<noteq> LF) (replace_space (title r))"
    unfolding d by (rule first_line_heading)
  have 2: "first_line (fst (write_recipe r (replace_space (title r)) S)) = ''# '' @ title r"
    if "CHR '' '' \<notin> set (title r)" "LF \<notin> set (title r)"
  proof -
    have tw: "takeWhile (\<lambda>c. c \<noteq> LF) (title r) = title r"
      using that(2) by (intro takeWhile_id) auto
    have eq: "replace_space (title r) = title r"
      using that(1) by (rule replace_space_no_space)
    show ?thesis using 1 by (simp only: eq tw)
  qed
  show ?thesis using f 1 2 by blast
qed

theorem heading_is_hyphenated_title_witness:
  "test_scraper ''soup'' = Inr soup
   \<and> snd (save_recipe_to_markdown test_scraper test_os ''soup'' test_settings empty_world)
       = Inr ''/recipes/soup.md''
   \<and> CHR '' '' \<notin> set (title soup) \<and> LF \<notin> set (title soup)
   \<and> (\<exists>doc. files (fst (save_recipe_to_markdown test_scraper test_os ''soup'' test_settings
                           empty_world)) ''/recipes/soup.md'' = Some doc
            \<and> first_line doc = ''# Soup'')"
proof -
  let ?res = "save_recipe_to_markdown test_scraper test_os ''soup'' test_settings empty_world"
  have s: "test_scraper ''soup'' = Inr soup" by (simp add: test_scraper_def)
  have r: "snd ?res = Inr ''/recipes/soup.md''" by code_simp
  have e: "?res = (fst ?res, Inr ''/recipes/soup.md'')" using r by (metis prod.collapse)
  have n: "CHR '' '' \<notin> set (title soup) \<and> LF \<notin> set (title soup)" by (simp add: soup_def)
  have t: "''# '' @ title soup = ''# Soup''" by (simp add: soup_def)
  from heading_is_hyphenated_title [OF s e] n t
  have "\<exists>doc. files (fst ?res) ''/recipes/soup.md'' = Some doc \<and> first_line doc = ''# Soup''"
    by auto
  with s r n show ?thesis by blast
qed

text \<open>
  The title "Lemon Cake" shows that the first line is not the title as the scraper
  returned it: the heading written is \<open># Lemon-Cake\<close>.
\<close>

theorem heading_not_scraped_title:
  "test_scraper ''cake'' = Inr lemon_cake
   \<and> snd (save_recipe_to_markdown test_scraper test_os ''cake'' test_settings empty_world)
       = Inr ''/recipes/lemon-cake.md''
   \<and> map_option first_line
       (files (fst (save_recipe_to_markdown test_scraper test_os ''cake'' test_settings
                      empty_world)) ''/recipes/lemon-cake.md'') = Some ''# Lemon-Cake''
   \<and> ''# Lemon-Cake'' \<noteq> ''# '' @ title lemon_cake"
  by code_simp

subsection \<open>Reading the title back\<close>

lemma py_lines_acc_first:
  "\<exists>more. py_lines_acc cur (t @ LF # rest)
      = (cur @ takeWhile (\<lambda>c. c \<noteq> LF \<and> c \<noteq> CR) t @ [LF]) # more"
proof (induction t arbitrary: cur)
  case Nil
  then show ?case by simp
next
  case (Cons c t)
  show ?case
  proof (cases "c = LF \<or> c = CR")
    case True
    then show ?thesis by (cases t) auto
  next
    case False
    then show ?thesis using Cons.IH [of "cur @ [c]"] by auto
  qed
qed

lemma py_readline_first:
  "py_readline (t @ LF # rest) = takeWhile (\<lambda>c. c \<noteq> LF \<and> c \<noteq> CR) t @ [LF]"
  using py_lines_acc_first [of "[]" t rest] by (auto simp: py_readline_def py_lines_def)

lemma py_rstrip_append_space:
  "\<forall>c\<in>set b. py_isspace c \<Longrightarrow> py_rstrip (x @ b) = py_rstrip x"
  by (simp add: py_rstrip_def dropWhile_append)

lemma py_strip_pad:
  assumes "\<forall>c\<in>set a. py_isspace c" "\<forall>c\<in>set b. py_isspace c"
  shows "py_strip (a @ x @ b) = py_strip x"
proof -
  have l: "py_lstrip (a @ x @ b) = py_lstrip (x @ b)"
    using assms(1) by (simp add: py_lstrip_def dropWhile_append)
  show ?thesis
  proof (cases "\<forall>c\<in>set x. py_isspace c")
    case True
    then have "py_lstrip (x @ b) = []" "py_lstrip x = []"
      using assms(2) by (auto simp: py_lstrip_def)
    then show ?thesis by (simp add: py_strip_def l)
  next
    case False
    then have "py_lstrip (x @ b) = py_lstrip x @ b"
      by (auto simp: py_lstrip_def dropWhile_append)
    then show ?thesis using assms(2) by (simp add: py_strip_def l py_rstrip_append_space)
  qed
qed

lemma extract_title_heading:
  "extract_title (''# '' @ t @ LF # rest)
     = py_strip (takeWhile (\<lambda>c. c \<noteq> LF \<and> c \<noteq> CR) t)"
proof -
  have "py_readline (''# '' @ t @ LF # rest)
          = ''# '' @ takeWhile (\<lambda>c. c \<noteq> LF \<and> c \<noteq> CR) t @ [LF]"
    using py_readline_first [of "''# '' @ t" rest] by simp
  then have "extract_title (''# '' @ t @ LF # rest)
               = py_strip ('' '' @ takeWhile (\<lambda>c. c \<noteq> LF \<and> c \<noteq> CR) t @ [LF])"
    by (simp add: extract_title_def lstrip_hash_def)
  also have "\<dots> = py_strip (takeWhile (\<lambda>c. c \<noteq> LF \<and> c \<noteq> CR) t)"
    by (rule py_strip_pad) (simp_all add: py_isspace_def)
  finally show ?thesis .
qed

text \<open>
  Claim C2, as the program has it. When the scraper returns the recipe \<open>r\<close> and the save
  returns the path \<open>p\<close>, the title that browsing extracts from the file at \<open>p\<close> (first
  line, leading \<open>#\<close>s stripped, whitespace trimmed) is the title of \<open>r\<close> with every space
  replaced by a hyphen, cut at its first line break and trimmed. It is the trimmed title
  of \<open>r\<close> when that title holds no space, line feed or carriage return.
\<close>

theorem extracted_title_is_hyphenated_title:
  assumes "scrape_me url = Inr r"
    and "save_recipe_to_markdown scrape_me env url S w = (w', Inr p)"
  shows "\<exists>doc. files w' p = Some doc
           \<and> extract_title doc
               = py_strip (takeWhile (\<lambda>c. c \<noteq> LF \<and> c \<noteq> CR) (replace_space (title r)))
           \<and> (CHR '' '' \<notin> set (title r) \<and> LF \<notin> set (title r) \<and> CR \<notin> set (title r)
                \<longrightarrow> extract_title doc = py_strip (title r))"
proof -
  from save_returns [OF assms] have
    f: "files w' p = Some (fst (write_recipe r (replace_space (title r)) S))" by blast
  obtain rest where
    d: "fst (write_recipe r (replace_space (title r)) S)
          = ''# '' @ replace_space (title r) @ LF # rest"
    using write_recipe_prefix by blast
  have 1: "extract_title (fst (write_recipe r (replace_space (title r)) S))
             = py_strip (takeWhile (\<lambda>c. c \<noteq> LF \<and> c \<noteq> CR) (replace_space (title r)))"
    unfolding d by (rule extract_title_heading)
  have 2: "extract_title (fst (write_recipe r (replace_space (title r)) S))
             = py_strip (title r)"
    if "CHR '' '' \<notin> set (title r)" "LF \<notin> set (title r)" "CR \<notin> set (title r)"
  proof -
    have tw: "takeWhile (\<lambda>c. c \<noteq> LF \<and> c \<noteq> CR) (title r) = title r"
      using that(2,3) by (intro takeWhile_id) auto
    have eq: "replace_space (title r) = title r"
      using that(1) by (rule replace_space_no_space)
    show ?thesis using 1 by (simp only: eq tw)
  qed
  show ?thesis using f 1 2 by blast
qed

theorem extracted_title_is_hyphenated_title_witness:
  "test_scraper ''soup'' = Inr soup
   \<and> snd (save_recipe_to_markdown test_scraper test_os ''soup'' test_settings empty_world)
       = Inr ''/recipes/soup.md''
   \<and> CHR '' '' \<notin> set (title soup) \<and> LF \<notin> set (title soup) \<and> CR \<notin> set (title soup)
   \<and> (\<exists>doc. files (fst (save_recipe_to_markdown test_scraper test_os ''soup'' test_settings
                           empty_world)) ''/recipes/soup.md'' = Some doc
            \<and> extract_title doc = ''Soup'')"
proof -
  let ?res = "save_recipe_to_markdown test_scraper test_os ''soup'' test_settings empty_world"
  have s: "test_scraper ''soup'' = Inr soup" by (simp add: test_scraper_def)
  have r: "snd ?res = Inr ''/recipes/soup.md''" by code_simp
  have e: "?res = (fst ?res, Inr ''/recipes/soup.md'')" using r by (metis prod.collapse)
  have n: "CHR '' '' \<notin> set (title soup) \<and> LF \<notin> set (title soup) \<and> CR \<notin> set (title soup)"
    by (simp add: soup_def)
  have t: "py_strip (title soup) = ''Soup''" by code_simp
  from extracted_title_is_hyphenated_title [OF s e] n t
  have "\<exists>doc. files (fst ?res) ''/recipes/soup.md'' = Some doc \<and> extract_title doc = ''Soup''"
    by auto
  with s r n show ?thesis by blast
qed

text \<open>
  For the title "Lemon Cake" the title read back is \<open>Lemon-Cake\<close>, which trimming the
  scraped title does not give.
\<close>

theorem extracted_title_not_scraped_title:
  "test_scraper ''cake'' = Inr lemon_cake
   \<and> snd (save_recipe_to_markdown test_scraper test_os ''cake'' test_settings empty_world)
       = Inr ''/recipes/lemon-cake.md''
   \<and> map_option extract_title
       (files (fst (save_recipe_to_markdown test_scraper test_os ''cake'' test_settings
                      empty_world)) ''/recipes/lemon-cake.md'') = Some ''Lemon-Cake''
   \<and> py_strip (title lemon_cake) = ''Lemon Cake''
   \<and> ''Lemon-Cake'' \<noteq> ''Lemon Cake''"
  by code_simp

subsection \<open>A scrape that fails\<close>

text \<open>
  Claim C3, at the failing input. When \<open>scrape_me\<close> raises on the URL, the program
  leaves the files as they were, but it does not stop after reporting the failure: it
  prints its message and goes on to \<open>scraper.title()\<close>, which raises
  \<open>UnboundLocalError\<close>, an error other than the one it reported. (When the console
  refuses the message, nothing is printed and the \<open>MarkupError\<close> of the console is what
  the function raises.)
\<close>

theorem scrape_failure_raises_unbound_local:
  assumes "scrape_me url = Inl e"
  shows "snd (save_recipe_to_markdown scrape_me env url S w)
           = Inl (case markup_raises env (msg_text (CouldNotScrape e)) of
                    None \<Rightarrow> UnboundLocalError | Some t \<Rightarrow> MarkupError t)
         \<and> console (fst (save_recipe_to_markdown scrape_me env url S w))
             = console w @ (case markup_raises env (msg_text (CouldNotScrape e)) of
                              None \<Rightarrow> [CouldNotScrape e] | Some t \<Rightarrow> [])
         \<and> files (fst (save_recipe_to_markdown scrape_me env url S w)) = files w"
  using assms by (simp add: save_scrape_fails split: option.splits)

theorem scrape_failure_raises_unbound_local_witness:
  "test_scraper ''broken'' = Inl ''no recipe found''
   \<and> snd (save_recipe_to_markdown test_scraper test_os ''broken'' test_settings empty_world)
       = Inl UnboundLocalError
   \<and> console (fst (save_recipe_to_markdown test_scraper test_os ''broken'' test_settings
                      empty_world)) = [CouldNotScrape ''no recipe found'']"
proof -
  have s: "test_scraper ''broken'' = Inl ''no recipe found''" by (simp add: test_scraper_def)
  have c: "console empty_world = []" by (simp add: empty_world_def)
  have m: "markup_raises test_os (msg_text (CouldNotScrape ''no recipe found'')) = None"
    by (simp add: markup_raises_def)
  show ?thesis
    using s c m scrape_failure_raises_unbound_local
            [of test_scraper "''broken''" "''no recipe found''" test_os test_settings empty_world]
    by simp
qed

subsection \<open>Saving the same title again\<close>





section \<open>Viewing persists the recipe\<close>

lemma console_print_frame:
  "files (fst (console_print env m w)) = files w
   \<and> scraped (fst (console_print env m w)) = scraped w
   \<and> prompted (fst (console_print env m w)) = prompted w
   \<and> set (console w) \<subseteq> set (console (fst (console_print env m w)))"
  by (auto simp: console_print_def split: option.splits)

lemma fst_handled: "fst (handled printed) = fst printed"
  by (cases printed; cases "snd printed") (auto simp: handled_def)

lemma fst_reraise: "fst (reraise printed e) = fst printed"
  by (cases printed; cases "snd printed") (auto simp: reraise_def)

lemma view_except_frame:
  "files (fst (view_except env e w)) = files w
   \<and> set (console w) \<subseteq> set (console (fst (view_except env e w)))"
  by (cases e) (simp_all add: view_except_def fst_handled console_print_frame)


text \<open>
  Claim C10, as the program has it. Take a URL that scrapes to a recipe and settings with
  a string directory and both display keys. If the path derived from directory and title
  can be opened for writing, \<open>view_recipe\<close> leaves at that path a document that begins
  with the heading of the recipe and has rendered what it read back from it, whatever the
  user answers to the prompt, "Quit" included, and whether or not there is a prompt. If
  the path cannot be opened, \<open>view_recipe\<close> leaves the files as they were.
\<close>

theorem view_persists_recipe:
  assumes "scrape_me url = Inr r"
    and "dict_get S ''directory'' = YStr d"
    and "p = d @ ''/'' @ format_file_name (replace_space (title r)) @ ''.md''"
    and "dict_item S ''yield'' = Some y"
    and "dict_item S ''time'' = Some tm"
  shows "if open_w env p = None
         then (\<exists>rest.
                 files (fst (view_recipe scrape_me env url S prompt_save answers w)) p
                   = Some (''# '' @ replace_space (title r) @ LF # rest)
                 \<and> Markdown (py_read (''# '' @ replace_space (title r) @ LF # rest))
                     \<in> set (console (fst (view_recipe scrape_me env url S prompt_save answers w))))
         else files (fst (view_recipe scrape_me env url S prompt_save answers w)) = files w"
proof (cases "open_w env p")
  case None
  define doc where "doc = fst (write_recipe r (replace_space (title r)) S)"
  obtain rest where rest: "doc = ''# '' @ replace_space (title r) @ LF # rest"
    unfolding doc_def using write_recipe_prefix by blast
  note ok = save_ok [where scrape_me = scrape_me and url = url,
                     OF assms(1) assms(2) assms(3) None assms(4) assms(5), folded doc_def]
  have ne: "p \<noteq> []" using assms(3) by simp
  have "\<exists>w' r'. view_try scrape_me env url S prompt_save answers w = (w', r')
          \<and> files w' p = Some doc \<and> Markdown (py_read doc) \<in> set (console w')"
    by (auto simp: view_try_def ok ne open_r_def print_markdown_def show_prompt_def Let_def
                   console_print_def
             split: list.splits option.splits)
  then obtain w' r' where t: "view_try scrape_me env url S prompt_save answers w = (w', r')"
    and f: "files w' p = Some doc" and m: "Markdown (py_read doc) \<in> set (console w')"
    by blast
  have "files (fst (view_recipe scrape_me env url S prompt_save answers w)) p = Some doc
        \<and> Markdown (py_read doc)
            \<in> set (console (fst (view_recipe scrape_me env url S prompt_save answers w)))"
    using f m view_except_frame [of env _ w']
    by (cases r') (auto simp: view_recipe_def t)
  then show ?thesis using None rest by auto
next
  case (Some e)
  have s: "save_recipe_to_markdown scrape_me env url S w
             = (w\<lparr>scraped := scraped w @ [url]\<rparr>, Inl e)"
    using assms(1,2) Some [unfolded assms(3)]
    by (simp add: save_recipe_to_markdown_def Let_def)
  have "files (fst (view_recipe scrape_me env url S prompt_save answers w)) = files w"
    using view_except_frame [of env e "w\<lparr>scraped := scraped w @ [url]\<rparr>"]
    by (simp add: view_recipe_def view_try_def s)
  then show ?thesis using Some by simp
qed


theorem view_persists_recipe_witness:
  "test_scraper ''soup'' = Inr soup
   \<and> dict_get test_settings ''directory'' = YStr ''/recipes''
   \<and> dict_item test_settings ''yield'' = Some (YBool False)
   \<and> dict_item test_settings ''time'' = Some (YBool True)
   \<and> open_w test_os ''/recipes/soup.md'' = None
   \<and> (\<exists>rest. files (fst (view_recipe test_scraper test_os ''soup'' test_settings True
                               [''Quit''] empty_world)) ''/recipes/soup.md''
                = Some (''# Soup'' @ LF # rest))"
proof -
  have s: "test_scraper ''soup'' = Inr soup" by (simp add: test_scraper_def)
  have d: "dict_get test_settings ''directory'' = YStr ''/recipes''"
    by (simp add: dict_get_def test_settings_def)
  have p: "''/recipes/soup.md''
             = ''/recipes'' @ ''/'' @ format_file_name (replace_space (title soup)) @ ''.md''"
    by code_simp
  have ow: "open_w test_os ''/recipes/soup.md'' = None" by (simp add: test_os_def)
  have y: "dict_item test_settings ''yield'' = Some (YBool False)"
    by (simp add: dict_item_def test_settings_def)
  have t: "dict_item test_settings ''time'' = Some (YBool True)"
    by (simp add: dict_item_def test_settings_def)
  have h: "replace_space (title soup) = ''Soup''" by code_simp
  from view_persists_recipe
         [where scrape_me = test_scraper and url = "''soup''", OF s d p y t,
          of test_os True "[''Quit'']" empty_world]
  have "\<exists>rest. files (fst (view_recipe test_scraper test_os ''soup'' test_settings True
                               [''Quit''] empty_world)) ''/recipes/soup.md''
                = Some (''# Soup'' @ LF # rest)"
    unfolding h using ow by auto
  with s d y t ow show ?thesis by blast
qed

text \<open>
  The title "Mac/Cheese" scrapes, but its path names a subdirectory that the storage
  directory does not have: \<open>open\<close> raises, \<open>view_recipe\<close> prints that the Markdown file
  was not found, and no file is there afterwards.
\<close>

theorem view_persists_nothing_for_slash_title:
  "mac_scraper ''mac'' = Inr mac_cheese
   \<and> snd (view_recipe mac_scraper flat_os ''mac'' test_settings True [''Quit''] empty_world)
       = Inr ()
   \<and> scraped (fst (view_recipe mac_scraper flat_os ''mac'' test_settings True [''Quit'']
                      empty_world)) = [''mac'']
   \<and> console (fst (view_recipe mac_scraper flat_os ''mac'' test_settings True [''Quit'']
                      empty_world)) = [MarkdownNotFound]
   \<and> files (fst (view_recipe mac_scraper flat_os ''mac'' test_settings True [''Quit'']
                    empty_world)) ''/recipes/mac/cheese.md'' = None"
  by code_simp

section \<open>Browsing a directory without recipes\<close>





section \<open>The batch of URLs\<close>







text \<open>
  Claim C6, at the failing input. The URL file has three lines and the scraper raises on
  the second. All three URLs are handed to the scraper and the two recipes are written,
  but the one failure is reported twice: \<open>save_recipe_to_markdown\<close> prints that it could
  not scrape, then raises \<open>UnboundLocalError\<close>, which the loop prints as an error of its
  own.
\<close>

theorem batch_scrape_failure_reported_twice:
  "snd (save_list_of_recipes test_scraper test_os ''urls.txt'' test_settings batch_world) = Inr ()
   \<and> scraped (fst (save_list_of_recipes test_scraper test_os ''urls.txt'' test_settings batch_world))
       = [''soup'', ''broken'', ''cake'']
   \<and> console (fst (save_list_of_recipes test_scraper test_os ''urls.txt'' test_settings batch_world))
       = [CouldNotScrape ''no recipe found'', ErrorSavingFromURL ''broken'' UnboundLocalError]
   \<and> files (fst (save_list_of_recipes test_scraper test_os ''urls.txt'' test_settings batch_world))
        ''/recipes/soup.md'' \<noteq> None
   \<and> files (fst (save_list_of_recipes test_scraper test_os ''urls.txt'' test_settings batch_world))
        ''/recipes/lemon-cake.md'' \<noteq> None"
  by code_simp





section \<open>The settings that load_yaml returns\<close>

lemma default_directory_nonempty: "default_directory env \<noteq> []"
  by (simp add: default_directory_def os_path_join_def)

lemma dict_get_setdefault:
  "k' \<noteq> k \<Longrightarrow> dict_get (setdefault s k v) k' = dict_get s k'"
  by (auto simp: dict_get_def setdefault_def map_add_def split: option.splits)

lemma dict_item_setdefault_same:
  "dict_item (setdefault s k v) k = Some (case dict_item s k of None \<Rightarrow> v | Some x \<Rightarrow> x)"
  by (auto simp: dict_item_def setdefault_def map_add_def split: option.splits)

lemma dict_item_setdefault_other:
  "k' \<noteq> k \<Longrightarrow> dict_item (setdefault s k v) k' = dict_item s k'"
  by (auto simp: dict_item_def setdefault_def map_add_def split: option.splits)

lemma dict_set_same: "dict_get (dict_set s k v) k = v"
  by (simp add: dict_get_def dict_set_def update_conv')

lemma dict_item_set_other: "k' \<noteq> k \<Longrightarrow> dict_item (dict_set s k v) k' = dict_item s k'"
  by (simp add: dict_item_def dict_set_def update_conv')

lemma settings_of_mapping:
  assumes "s = setdefault (setdefault settings' ''time'' (YBool True)) ''yield'' (YBool True)"
    and "settings' = (if \<not> truthy (dict_get kvs ''directory'')
                       then dict_set kvs ''directory'' (YStr q) else kvs)"
  shows "dict_get s ''directory''
           = (if truthy (dict_get kvs ''directory'') then dict_get kvs ''directory'' else YStr q)
         \<and> dict_item s ''time''
             = Some (case dict_item kvs ''time'' of None \<Rightarrow> YBool True | Some t \<Rightarrow> t)
         \<and> dict_item s ''yield''
             = Some (case dict_item kvs ''yield'' of None \<Rightarrow> YBool True | Some y \<Rightarrow> y)"
  by (auto simp: assms dict_get_setdefault dict_set_same dict_item_setdefault_other
                 dict_item_setdefault_same dict_item_set_other)

text \<open>
  Claim C9, as the program has it. Whatever the configuration file holds, the settings
  that \<open>load_yaml\<close> returns have the keys \<open>time\<close> and \<open>yield\<close> and a \<open>directory\<close> that
  is a non-empty string or a non-empty byte string. With \<open>kvs\<close> the mapping the file's
  text loaded to (the empty mapping for an empty file or any other falsy value), the
  directory is the one of \<open>kvs\<close>, or the default under the home directory when \<open>kvs\<close>
  has none or a falsy one, and \<open>time\<close> and \<open>yield\<close> have the values of \<open>kvs\<close>, or true
  when \<open>kvs\<close> lacks them.
\<close>

theorem load_yaml_returned_settings:
  assumes "load_yaml yaml_safe_load yaml_dump env w = (w', Inr s)"
  shows "\<exists>loaded kvs.
           yaml_safe_load (config_text yaml_dump env w) = Inr loaded
           \<and> (if truthy loaded then loaded else YMap []) = YMap kvs
           \<and> dict_get s ''directory''
               = (if truthy (dict_get kvs ''directory'') then dict_get kvs ''directory''
                  else YStr (default_directory env))
           \<and> ((\<exists>p. dict_get s ''directory'' = YStr p \<and> p \<noteq> [])
                \<or> (\<exists>b. dict_get s ''directory'' = YBytes b \<and> b \<noteq> []))
           \<and> dict_item s ''time''
               = Some (case dict_item kvs ''time'' of None \<Rightarrow> YBool True | Some t \<Rightarrow> t)
           \<and> dict_item s ''yield''
               = Some (case dict_item kvs ''yield'' of None \<Rightarrow> YBool True | Some y \<Rightarrow> y)"
proof -
  have ct: "config_text yaml_dump env w
              = py_read (case files w (config_file env) of
                           None \<Rightarrow> yaml_dump (YMap default_config) | Some f \<Rightarrow> f)"
    by (simp add: config_text_def split: option.splits)
  from assms obtain loaded where l: "yaml_safe_load (config_text yaml_dump env w) = Inr loaded"
    by (cases "yaml_safe_load (config_text yaml_dump env w)")
       (auto simp: load_yaml_def Let_def config_file_def [symmetric] open_r_def ct
             split: option.splits if_splits sum.splits)
  from assms l obtain kvs where k: "(if truthy loaded then loaded else YMap []) = YMap kvs"
    by (cases "if truthy loaded then loaded else YMap []")
       (auto simp: load_yaml_def Let_def config_file_def [symmetric] open_r_def ct
             split: option.splits if_splits sum.splits)
  define q where "q = default_directory env"
  define settings' where
    "settings' = (if \<not> truthy (dict_get kvs ''directory'')
                  then dict_set kvs ''directory'' (YStr q) else kvs)"
  define rdir where
    "rdir = (if \<not> truthy (dict_get kvs ''directory'') then YStr q else dict_get kvs ''directory'')"
  from assms l k have
    s: "s = setdefault (setdefault settings' ''time'' (YBool True)) ''yield'' (YBool True)"
    and p: "(\<exists>p. rdir = YStr p) \<or> (\<exists>b. rdir = YBytes b)"
    by (cases rdir;
        auto simp: load_yaml_def Let_def config_file_def [symmetric] open_r_def ct rdir_def
                   settings'_def q_def
             split: option.splits if_splits sum.splits)+
  note m = settings_of_mapping [OF s settings'_def]
  have d: "dict_get s ''directory'' = rdir" using m by (simp add: rdir_def)
  have t: "truthy rdir" by (simp add: rdir_def q_def default_directory_nonempty)
  have "(\<exists>p. dict_get s ''directory'' = YStr p \<and> p \<noteq> [])
        \<or> (\<exists>b. dict_get s ''directory'' = YBytes b \<and> b \<noteq> [])"
    using p t unfolding d by auto
  with m l k show ?thesis unfolding q_def by blast
qed

theorem load_yaml_returned_settings_witness:
  "files empty_config_world (config_file test_os) = Some []
   \<and> snd (load_yaml test_safe_load test_dump test_os empty_config_world)
       = Inr [(YStr ''directory'', YStr ''/home/u/Documents/pure_recipes''),
              (YStr ''time'', YBool True), (YStr ''yield'', YBool True)]
   \<and> (\<exists>s. snd (load_yaml test_safe_load test_dump test_os empty_config_world) = Inr s
          \<and> dict_get s ''directory'' = YStr ''/home/u/Documents/pure_recipes''
          \<and> dict_item s ''time'' = Some (YBool True)
          \<and> dict_item s ''yield'' = Some (YBool True))"
proof -
  let ?res = "load_yaml test_safe_load test_dump test_os empty_config_world"
  let ?s = "[(YStr ''directory'', YStr ''/home/u/Documents/pure_recipes''),
             (YStr ''time'', YBool True), (YStr ''yield'', YBool True)]"
  have f: "files empty_config_world (config_file test_os) = Some []" by code_simp
  have r: "snd ?res = Inr ?s" by code_simp
  have e: "?res = (fst ?res, Inr ?s)" using r by (metis prod.collapse)
  have c: "test_safe_load (config_text test_dump test_os empty_config_world) = Inr YNull"
    by code_simp
  have dd: "default_directory test_os = ''/home/u/Documents/pure_recipes''" by code_simp
  from load_yaml_returned_settings [OF e] obtain loaded kvs where
    h: "test_safe_load (config_text test_dump test_os empty_config_world) = Inr loaded"
       "(if truthy loaded then loaded else YMap []) = YMap kvs"
       "dict_get ?s ''directory''
          = (if truthy (dict_get kvs ''directory'') then dict_get kvs ''directory''
             else YStr (default_directory test_os))"
       "dict_item ?s ''time''
          = Some (case dict_item kvs ''time'' of None \<Rightarrow> YBool True | Some t \<Rightarrow> t)"
       "dict_item ?s ''yield''
          = Some (case dict_item kvs ''yield'' of None \<Rightarrow> YBool True | Some y \<Rightarrow> y)"
    by blast
  from h(1) c have "loaded = YNull" by simp
  with h(2) have "kvs = []" by simp
  with h(3,4,5) dd have "dict_get ?s ''directory'' = YStr ''/home/u/Documents/pure_recipes''"
    "dict_item ?s ''time'' = Some (YBool True)"
    "dict_item ?s ''yield'' = Some (YBool True)"
    by (simp_all add: dict_item_def dict_get_def)
  with r have "\<exists>s. snd ?res = Inr s
          \<and> dict_get s ''directory'' = YStr ''/home/u/Documents/pure_recipes''
          \<and> dict_item s ''time'' = Some (YBool True)
          \<and> dict_item s ''yield'' = Some (YBool True)"
    by blast
  with f r show ?thesis by blast
qed

text \<open>
  A configuration file that gives the directory as binary data: \<open>safe_load\<close> builds a
  byte string, which \<open>os.makedirs\<close> accepts, and the settings returned hold a directory
  that is not a string.
\<close>

theorem load_yaml_returns_bytes_directory:
  "files binary_config_world (config_file test_os) = Some (''directory: !!binary L3I='' @ [LF])
   \<and> test_safe_load (''directory: !!binary L3I='' @ [LF])
       = Inr (YMap [(YStr ''directory'', YBytes ''/r'')])
   \<and> snd (load_yaml test_safe_load test_dump test_os binary_config_world)
       = Inr [(YStr ''directory'', YBytes ''/r''), (YStr ''time'', YBool True),
              (YStr ''yield'', YBool True)]
   \<and> dict_get [(YStr ''directory'', YBytes ''/r''), (YStr ''time'', YBool True),
                (YStr ''yield'', YBool True)] ''directory'' = YBytes ''/r''"
  by code_simp

text \<open>
  The property is one of the settings returned. \<open>load_yaml\<close> does not return for every
  file: a file that holds a YAML sequence loads to a list, on which \<open>settings.get\<close>
  raises.
\<close>

lemma load_yaml_raises_on_sequence:
  "files sequence_config_world ''/home/u/.config/pure_recipe/config.yaml'' = Some (''- a'' @ [LF])
   \<and> test_safe_load (''- a'' @ [LF]) = Inr (YSeq [YStr ''a''])
   \<and> snd (load_yaml test_safe_load test_dump test_os sequence_config_world)
       = Inl (AttributeError ([APOS] @ ''list' object has no attribute 'get'' @ [APOS]))"
  by code_simp

end
